theory Spec2Isabelle
  imports Main "HOL-Library.Log_Nat"
begin

section \<open>Data model\<close>

text \<open>
  Modelled from the spec: the type declarations of \<^verbatim>\<open>@/lib/types\<close> (Habit, TodoItem,
  TodoPriority, TodoStatus, OrdiaaState) are imported by the hook but are not part of the
  sources; their shape is taken from section 3 of the specification and from the object
  literals the hook builds. Field names carry a prefix where the source name is a HOL
  constant or an Isar keyword (\<open>id\<close>, \<open>text\<close>) or is also used as a parameter name.
\<close>

record Habit =
  habit_id :: string
  habit_name :: string
  habit_emoji :: string

datatype TodoStatus = Todo | Doing | Done

datatype TodoPriority = Low | Medium | High

record TodoItem =
  todo_id :: string
  todo_text :: string
  todo_completed :: bool
  todo_status :: TodoStatus
  todo_priority :: TodoPriority
  todo_createdAt :: string

text \<open>
  \<^verbatim>\<open>Partial<TodoItem>\<close>: every field may be absent (\<open>None\<close>).
\<close>

record TodoPartial =
  partial_id :: "string option"
  partial_text :: "string option"
  partial_completed :: "bool option"
  partial_status :: "TodoStatus option"
  partial_priority :: "TodoPriority option"
  partial_createdAt :: "string option"

text \<open>
  The three JavaScript objects used as dictionaries are partial maps from the key string;
  an absent key reads as \<^verbatim>\<open>undefined\<close>, here \<open>None\<close>.
\<close>

record OrdiaaState =
  habits :: "Habit list"
  completions :: "string \<rightharpoonup> bool"
  logs :: "string \<rightharpoonup> string"
  todos :: "string \<rightharpoonup> TodoItem list"

text \<open>
  Modelled from the spec: \<^verbatim>\<open>loadState\<close> is not part of the sources; section 4.1 gives the
  state it returns when nothing has been stored.
\<close>

definition defaultState :: OrdiaaState where
  "defaultState = \<lparr>habits = [], completions = Map.empty, logs = Map.empty, todos = Map.empty\<rparr>"

section \<open>JavaScript primitives used by the hook\<close>

text \<open>
  \<^verbatim>\<open>Number.prototype.toString\<close> on a non-negative integer (the value of \<^verbatim>\<open>Date.now()\<close>):
  its decimal digits.
\<close>

fun toString_nat :: "nat \<Rightarrow> string" where
  "toString_nat n =
     (if n < 10 then [''0123456789'' ! n]
      else toString_nat (n div 10) @ [''0123456789'' ! (n mod 10)])"

declare toString_nat.simps [simp del]

text \<open>
  \<^verbatim>\<open>!x\<close> on a value read from \<open>completions\<close>: \<^verbatim>\<open>undefined\<close> is falsy.
\<close>

definition js_not :: "bool option \<Rightarrow> bool" where
  "js_not v = (case v of None \<Rightarrow> True | Some b \<Rightarrow> \<not> b)"

text \<open>
  JavaScript numbers are IEEE 754 binary64 values. The rate computation divides two array
  lengths and multiplies the quotient by 100, so the values involved are finite; they are
  represented by the rational number they denote. Each arithmetic operation returns the
  exact result rounded to the nearest value with a 53-bit significand, ties to the even
  significand (\<open>binary64\<close>); below the normal range the values keep the spacing of the
  smallest normal binade. Overflow to infinity cannot occur for the operands of the hook
  and is not represented.
\<close>

definition round_ties_even :: "rat \<Rightarrow> int" where
  "round_ties_even q =
     (let f = \<lfloor>q\<rfloor>; r = q - of_int f
      in if r < 1 / 2 then f else if 1 / 2 < r then f + 1 else if even f then f else f + 1)"

text \<open>\<open>ilog2 x\<close> is \<open>\<lfloor>log\<^sub>2 x\<rfloor>\<close> for a positive rational \<open>x\<close>.\<close>

definition ilog2 :: "rat \<Rightarrow> int" where
  "ilog2 x =
     (case quotient_of x of (p, q) \<Rightarrow>
        let d = bitlen p - bitlen q in if 2 powi d \<le> x then d else d - 1)"

definition binary64 :: "rat \<Rightarrow> rat" where
  "binary64 x =
     (if x = 0 then 0
      else let u = 2 powi (max (ilog2 \<bar>x\<bar>) (- 1022) - 52)
           in of_int (round_ties_even (x / u)) * u)"

definition js_div :: "rat \<Rightarrow> rat \<Rightarrow> rat" where
  "js_div a b = binary64 (a / b)"

definition js_mul :: "rat \<Rightarrow> rat \<Rightarrow> rat" where
  "js_mul a b = binary64 (a * b)"

text \<open>
  \<^verbatim>\<open>Math.round\<close>: the integer closest to the argument, the larger one when two are
  equally close.
\<close>

definition Math_round :: "rat \<Rightarrow> int" where
  "Math_round x = \<lfloor>x + 1 / 2\<rfloor>"

section \<open>The hook \<^verbatim>\<open>useOrdiaaState\<close>\<close>

text \<open>
  Each \<^verbatim>\<open>setState\<close> updater is a function from the previous state to the next one. The
  helper \<^verbatim>\<open>formatDate\<close> of \<^verbatim>\<open>@/lib/storage\<close> is not part of the sources: it is the
  parameter \<open>formatDate\<close>, and the type \<open>'d\<close> stands for \<^verbatim>\<open>Date\<close>. The clock reading
  \<^verbatim>\<open>Date.now()\<close> is the parameter \<open>now\<close>.
\<close>

definition toggleHabit :: "('d \<Rightarrow> string) \<Rightarrow> string \<Rightarrow> 'd \<Rightarrow> OrdiaaState \<Rightarrow> OrdiaaState" where
  "toggleHabit formatDate habitId date prev =
     (let dateStr = formatDate date;
          key = habitId @ ''-'' @ dateStr
      in prev\<lparr>completions := (completions prev)(key \<mapsto> js_not (completions prev key))\<rparr>)"

definition updateLog :: "('d \<Rightarrow> string) \<Rightarrow> 'd \<Rightarrow> string \<Rightarrow> OrdiaaState \<Rightarrow> OrdiaaState" where
  "updateLog formatDate date text prev =
     (let dateStr = formatDate date
      in prev\<lparr>logs := (logs prev)(dateStr \<mapsto> text)\<rparr>)"

text \<open>\<^verbatim>\<open>state.logs[k] || ""\<close>: the empty string is falsy as well.\<close>

definition getLog :: "('d \<Rightarrow> string) \<Rightarrow> OrdiaaState \<Rightarrow> 'd \<Rightarrow> string" where
  "getLog formatDate state date =
     (case logs state (formatDate date) of
        None \<Rightarrow> ''''
      | Some s \<Rightarrow> if s = '''' then '''' else s)"

text \<open>\<^verbatim>\<open>todos[k] || []\<close>: every array, the empty one too, is truthy.\<close>

definition todosAt :: "OrdiaaState \<Rightarrow> string \<Rightarrow> TodoItem list" where
  "todosAt state dateStr = (case todos state dateStr of None \<Rightarrow> [] | Some xs \<Rightarrow> xs)"

definition getTodos :: "('d \<Rightarrow> string) \<Rightarrow> OrdiaaState \<Rightarrow> 'd \<Rightarrow> TodoItem list" where
  "getTodos formatDate state date = todosAt state (formatDate date)"

text \<open>
  The default parameters \<^verbatim>\<open>priority = "medium"\<close> and \<^verbatim>\<open>status = "todo"\<close> apply when the
  argument is omitted (\<open>None\<close>).
\<close>

definition addTodo ::
  "('d \<Rightarrow> string) \<Rightarrow> nat \<Rightarrow> 'd \<Rightarrow> string \<Rightarrow> TodoPriority option \<Rightarrow> TodoStatus option
     \<Rightarrow> OrdiaaState \<Rightarrow> OrdiaaState" where
  "addTodo formatDate now date text priority_arg status_arg prev =
     (let priority = (case priority_arg of None \<Rightarrow> Medium | Some p \<Rightarrow> p);
          status = (case status_arg of None \<Rightarrow> Todo | Some s \<Rightarrow> s);
          dateStr = formatDate date;
          newTodo = \<lparr>todo_id = toString_nat now,
                     todo_text = text,
                     todo_completed = (status = Done),
                     todo_status = status,
                     todo_priority = priority,
                     todo_createdAt = dateStr\<rparr>
      in prev\<lparr>todos := (todos prev)(dateStr \<mapsto> todosAt prev dateStr @ [newTodo])\<rparr>)"

definition toggleTodo :: "('d \<Rightarrow> string) \<Rightarrow> 'd \<Rightarrow> string \<Rightarrow> OrdiaaState \<Rightarrow> OrdiaaState" where
  "toggleTodo formatDate date todoId prev =
     (let dateStr = formatDate date
      in prev\<lparr>todos := (todos prev)(dateStr \<mapsto>
           map (\<lambda>todo.
                  if todo_id todo = todoId then
                    let newCompleted = \<not> todo_completed todo
                    in todo\<lparr>todo_completed := newCompleted,
                            todo_status := (if newCompleted then Done else Todo)\<rparr>
                  else todo)
               (todosAt prev dateStr))\<rparr>)"

text \<open>The object spread \<^verbatim>\<open>{ ...todo, ...updates }\<close>: a field present in \<open>updates\<close> wins.\<close>

definition spread :: "TodoItem \<Rightarrow> TodoPartial \<Rightarrow> TodoItem" where
  "spread todo updates =
     \<lparr>todo_id = (case partial_id updates of None \<Rightarrow> todo_id todo | Some v \<Rightarrow> v),
      todo_text = (case partial_text updates of None \<Rightarrow> todo_text todo | Some v \<Rightarrow> v),
      todo_completed =
        (case partial_completed updates of None \<Rightarrow> todo_completed todo | Some v \<Rightarrow> v),
      todo_status = (case partial_status updates of None \<Rightarrow> todo_status todo | Some v \<Rightarrow> v),
      todo_priority =
        (case partial_priority updates of None \<Rightarrow> todo_priority todo | Some v \<Rightarrow> v),
      todo_createdAt =
        (case partial_createdAt updates of None \<Rightarrow> todo_createdAt todo | Some v \<Rightarrow> v)\<rparr>"

definition updateTodo ::
  "('d \<Rightarrow> string) \<Rightarrow> 'd \<Rightarrow> string \<Rightarrow> TodoPartial \<Rightarrow> OrdiaaState \<Rightarrow> OrdiaaState" where
  "updateTodo formatDate date todoId updates prev =
     (let dateStr = formatDate date
      in prev\<lparr>todos := (todos prev)(dateStr \<mapsto>
           map (\<lambda>todo. if todo_id todo = todoId then spread todo updates else todo)
               (todosAt prev dateStr))\<rparr>)"

definition deleteTodo :: "('d \<Rightarrow> string) \<Rightarrow> 'd \<Rightarrow> string \<Rightarrow> OrdiaaState \<Rightarrow> OrdiaaState" where
  "deleteTodo formatDate date todoId prev =
     (let dateStr = formatDate date
      in prev\<lparr>todos := (todos prev)(dateStr \<mapsto>
           filter (\<lambda>todo. todo_id todo \<noteq> todoId) (todosAt prev dateStr))\<rparr>)"

text \<open>
  The filter of \<^verbatim>\<open>getCompletionRate\<close> keeps a habit when the value read from
  \<open>completions\<close> is truthy, that is, present and \<^verbatim>\<open>true\<close>.
\<close>

definition completedOn :: "OrdiaaState \<Rightarrow> string \<Rightarrow> Habit \<Rightarrow> bool" where
  "completedOn state dateStr h = (completions state (habit_id h @ ''-'' @ dateStr) = Some True)"

definition getCompletionRate :: "('d \<Rightarrow> string) \<Rightarrow> OrdiaaState \<Rightarrow> 'd \<Rightarrow> int" where
  "getCompletionRate formatDate state date =
     (let dateStr = formatDate date;
          total = length (habits state)
      in if total = 0 then 0
         else let completed = length (filter (completedOn state dateStr) (habits state))
              in Math_round (js_mul (js_div (of_nat completed) (of_nat total)) 100))"

text \<open>
  The \<^verbatim>\<open>Date\<close> methods used by \<^verbatim>\<open>getCompletionHistory\<close> belong to the JavaScript
  runtime: \<^verbatim>\<open>getDate\<close>, \<^verbatim>\<open>setDate\<close> and
  \<^verbatim>\<open>toLocaleDateString("en-US", {month: "short", day: "numeric"})\<close>. The hook takes them
  as a record of functions; their model follows below. The number that \<^verbatim>\<open>getDate\<close>
  returns and \<^verbatim>\<open>setDate\<close> receives is an integer or \<^verbatim>\<open>NaN\<close> (\<open>None\<close>).
\<close>

record 'd DateApi =
  getDate :: "'d \<Rightarrow> int option"
  setDate :: "'d \<Rightarrow> int option \<Rightarrow> 'd"
  toLocaleDateString :: "'d \<Rightarrow> string"

record HistoryEntry =
  entry_date :: string
  entry_rate :: int

text \<open>
  The body of the \<^verbatim>\<open>for\<close> loop, for the loop variable \<open>i\<close>: \<open>windowDate\<close> is the variable
  \<^verbatim>\<open>date\<close>, a copy of \<open>today\<close> after \<^verbatim>\<open>date.setDate(date.getDate() - i)\<close>, and
  \<open>historyEntry\<close> is the entry pushed for it.
\<close>

definition windowDate :: "'d DateApi \<Rightarrow> 'd \<Rightarrow> int \<Rightarrow> 'd" where
  "windowDate api today i = setDate api today (map_option (\<lambda>d. d - i) (getDate api today))"

definition historyEntry ::
  "'d DateApi \<Rightarrow> ('d \<Rightarrow> string) \<Rightarrow> OrdiaaState \<Rightarrow> 'd \<Rightarrow> int \<Rightarrow> HistoryEntry" where
  "historyEntry api formatDate state today i =
     (let date = windowDate api today i
      in \<lparr>entry_date = toLocaleDateString api date,
          entry_rate = getCompletionRate formatDate state date\<rparr>)"

text \<open>
  \<^verbatim>\<open>for (let i = days - 1; i >= 0; i--) history.push(...)\<close>, with the array under
  construction as an accumulator.
\<close>

function historyLoop ::
  "'d DateApi \<Rightarrow> ('d \<Rightarrow> string) \<Rightarrow> OrdiaaState \<Rightarrow> 'd \<Rightarrow> int \<Rightarrow> HistoryEntry list
     \<Rightarrow> HistoryEntry list" where
  "historyLoop api formatDate state today i history =
     (if 0 \<le> i
      then historyLoop api formatDate state today (i - 1)
             (history @ [historyEntry api formatDate state today i])
      else history)"
  by pat_completeness auto
termination
  by (relation "measure (\<lambda>(api, formatDate, state, today, i, history). nat (i + 1))") auto

declare historyLoop.simps [simp del]

definition getCompletionHistory ::
  "'d DateApi \<Rightarrow> ('d \<Rightarrow> string) \<Rightarrow> OrdiaaState \<Rightarrow> 'd \<Rightarrow> int \<Rightarrow> HistoryEntry list" where
  "getCompletionHistory api formatDate state today days =
     historyLoop api formatDate state today (days - 1) []"

definition addHabit :: "nat \<Rightarrow> string \<Rightarrow> string \<Rightarrow> OrdiaaState \<Rightarrow> OrdiaaState" where
  "addHabit now name emoji prev =
     (let newHabit = \<lparr>habit_id = toString_nat now, habit_name = name, habit_emoji = emoji\<rparr>
      in prev\<lparr>habits := habits prev @ [newHabit]\<rparr>)"

definition deleteHabit :: "string \<Rightarrow> OrdiaaState \<Rightarrow> OrdiaaState" where
  "deleteHabit habitId prev = prev\<lparr>habits := filter (\<lambda>h. habit_id h \<noteq> habitId) (habits prev)\<rparr>"

text \<open>\<^verbatim>\<open>state.completions[key] ?? false\<close>.\<close>

definition isHabitCompleted :: "('d \<Rightarrow> string) \<Rightarrow> OrdiaaState \<Rightarrow> string \<Rightarrow> 'd \<Rightarrow> bool" where
  "isHabitCompleted formatDate state habitId date =
     (let key = habitId @ ''-'' @ formatDate date
      in case completions state key of None \<Rightarrow> False | Some b \<Rightarrow> b)"

section \<open>A calendar to run the model on\<close>

text \<open>
  The theorems on the mutations and queries of the hook hold for every \<open>formatDate\<close> and
  every type of dates. To evaluate them on concrete inputs, a date is a local calendar
  day, counted in days from 1 January 1970 in the proleptic Gregorian calendar.
\<close>

definition yearOfEra :: "int \<Rightarrow> int" where
  "yearOfEra doe = (doe - doe div 1460 + doe div 36524 - doe div 146096) div 365"

definition dayOfYear :: "int \<Rightarrow> int \<Rightarrow> int" where
  "dayOfYear doe yoe = doe - (365 * yoe + yoe div 4 - yoe div 100)"

definition monthIndex :: "int \<Rightarrow> int" where
  "monthIndex doy = (5 * doy + 2) div 153"

definition monthOf :: "int \<Rightarrow> int" where
  "monthOf mp = (if mp < 10 then mp + 3 else mp - 9)"

definition dayOfMonth :: "int \<Rightarrow> int \<Rightarrow> int" where
  "dayOfMonth doy mp = doy - (153 * mp + 2) div 5 + 1"

definition yearOf :: "int \<Rightarrow> int \<Rightarrow> int \<Rightarrow> int" where
  "yearOf era yoe m = yoe + era * 400 + (if m \<le> 2 then 1 else 0)"

text \<open>\<open>civil z\<close> is the year, the month (1 to 12) and the day of the month of day \<open>z\<close>.\<close>

definition civil :: "int \<Rightarrow> int \<times> int \<times> int" where
  "civil z =
     (let era = (z + 719468) div 146097;
          doe = (z + 719468) mod 146097;
          yoe = yearOfEra doe;
          doy = dayOfYear doe yoe;
          mp = monthIndex doy
      in (yearOf era yoe (monthOf mp), monthOf mp, dayOfMonth doy mp))"

definition pad0 :: "nat \<Rightarrow> string \<Rightarrow> string" where
  "pad0 w s = replicate (w - length s) CHR ''0'' @ s"

text \<open>
  Modelled from the spec: \<^verbatim>\<open>formatDate\<close> is not part of the sources; section 4.1 describes
  it as the canonical date-only representation \<^verbatim>\<open>YYYY-MM-DD\<close> in local calendar terms.
\<close>

definition isoDate :: "int \<Rightarrow> string" where
  "isoDate z =
     (case civil z of (y, m, d) \<Rightarrow>
        pad0 4 (toString_nat (nat y)) @ ''-'' @ pad0 2 (toString_nat (nat m)) @ ''-''
          @ pad0 2 (toString_nat (nat d)))"

section \<open>Dates of the JavaScript runtime\<close>

text \<open>
  The \<^verbatim>\<open>Date\<close> objects and their methods belong to the runtime, not to the repository.
  They are modelled on the ECMAScript standard (ECMA-262, Date objects), whose names the
  definitions keep. A time value is a number of milliseconds since 1 January 1970 UTC; a
  \<^verbatim>\<open>Date\<close> holds a time value or \<^verbatim>\<open>NaN\<close> (\<open>None\<close>, the Invalid Date). The arithmetic on
  time values stays below \<open>2\<^sup>5\<^sup>3\<close> in the range that \<open>TimeClip\<close> admits and is exact there.
\<close>

definition msPerDay :: int where
  "msPerDay = 86400000"

definition Day :: "int \<Rightarrow> int" where
  "Day t = t div msPerDay"

definition TimeWithinDay :: "int \<Rightarrow> int" where
  "TimeWithinDay t = t mod msPerDay"

definition DaysInYear :: "int \<Rightarrow> int" where
  "DaysInYear y =
     (if y mod 4 \<noteq> 0 then 365 else if y mod 100 \<noteq> 0 then 366
      else if y mod 400 \<noteq> 0 then 365 else 366)"

definition DayFromYear :: "int \<Rightarrow> int" where
  "DayFromYear y =
     365 * (y - 1970) + (y - 1969) div 4 - (y - 1901) div 100 + (y - 1601) div 400"

text \<open>
  \<open>YearFromTime t\<close> is the largest year \<open>y\<close> with \<open>DayFromYear y \<le> Day t\<close>. It is found by
  going up from a year that is not too large (a year has at most 366 days and at least
  365); the number of steps is bounded by the distance in days.
\<close>

fun yearSearch :: "nat \<Rightarrow> int \<Rightarrow> int \<Rightarrow> int" where
  "yearSearch 0 d y = y"
| "yearSearch (Suc n) d y = (if DayFromYear (y + 1) \<le> d then yearSearch n d (y + 1) else y)"

definition YearFromTime :: "int \<Rightarrow> int" where
  "YearFromTime t =
     (let d = Day t;
          y = 1970 + (if 0 \<le> d then d div 366 else d div 365)
      in yearSearch (nat (d - DayFromYear y)) d y)"

definition InLeapYear :: "int \<Rightarrow> int" where
  "InLeapYear t = (if DaysInYear (YearFromTime t) = 366 then 1 else 0)"

definition DayWithinYear :: "int \<Rightarrow> int" where
  "DayWithinYear t = Day t - DayFromYear (YearFromTime t)"

definition MonthFromTime :: "int \<Rightarrow> int" where
  "MonthFromTime t =
     (let d = DayWithinYear t; l = InLeapYear t
      in if d < 31 then 0
         else if d < 59 + l then 1
         else if d < 90 + l then 2
         else if d < 120 + l then 3
         else if d < 151 + l then 4
         else if d < 181 + l then 5
         else if d < 212 + l then 6
         else if d < 243 + l then 7
         else if d < 273 + l then 8
         else if d < 304 + l then 9
         else if d < 334 + l then 10
         else 11)"

definition DateFromTime :: "int \<Rightarrow> int" where
  "DateFromTime t =
     (let d = DayWithinYear t; l = InLeapYear t; m = MonthFromTime t
      in if m = 0 then d + 1
         else if m = 1 then d - 30
         else if m = 2 then d - 58 - l
         else if m = 3 then d - 89 - l
         else if m = 4 then d - 119 - l
         else if m = 5 then d - 150 - l
         else if m = 6 then d - 180 - l
         else if m = 7 then d - 211 - l
         else if m = 8 then d - 242 - l
         else if m = 9 then d - 272 - l
         else if m = 10 then d - 303 - l
         else d - 333 - l)"

text \<open>
  \<open>MakeDay\<close> returns \<open>Day t + date - 1\<close> for the time value \<open>t\<close> of the first day of the
  given month: the first day of the year plus the days of the months before it.
\<close>

definition daysBeforeMonth :: "int \<Rightarrow> int \<Rightarrow> int" where
  "daysBeforeMonth m l =
     (if m = 0 then 0
      else if m = 1 then 31
      else if m = 2 then 59 + l
      else if m = 3 then 90 + l
      else if m = 4 then 120 + l
      else if m = 5 then 151 + l
      else if m = 6 then 181 + l
      else if m = 7 then 212 + l
      else if m = 8 then 243 + l
      else if m = 9 then 273 + l
      else if m = 10 then 304 + l
      else 334 + l)"

definition MakeDay :: "int \<Rightarrow> int \<Rightarrow> int \<Rightarrow> int" where
  "MakeDay year month date =
     (let ym = year + month div 12;
          mn = month mod 12
      in DayFromYear ym + daysBeforeMonth mn (if DaysInYear ym = 366 then 1 else 0)
           + date - 1)"

definition MakeDate :: "int \<Rightarrow> int \<Rightarrow> int" where
  "MakeDate day time = day * msPerDay + time"

definition TimeClip :: "int \<Rightarrow> int option" where
  "TimeClip time = (if 8640000000000000 < \<bar>time\<bar> then None else Some time)"

text \<open>
  The local time zone is its offset function \<open>LocalTZA\<close>: \<open>zone t True\<close> is the offset in
  milliseconds at the time value \<open>t\<close>; \<open>zone t False\<close> is the offset for \<open>t\<close> read as a local
  time, which for a local time that a transition skips or repeats is the offset in force
  before the transition.
\<close>

type_synonym TimeZone = "int \<Rightarrow> bool \<Rightarrow> int"

definition LocalTime :: "TimeZone \<Rightarrow> int \<Rightarrow> int" where
  "LocalTime zone t = t + zone t True"

definition UTC :: "TimeZone \<Rightarrow> int \<Rightarrow> int" where
  "UTC zone t = t - zone t False"

text \<open>\<^verbatim>\<open>Date.prototype.getDate\<close>: the day of the month in local time, \<^verbatim>\<open>NaN\<close> for Invalid Date.\<close>

definition jsGetDate :: "TimeZone \<Rightarrow> int option \<Rightarrow> int option" where
  "jsGetDate zone date =
     (case date of None \<Rightarrow> None | Some t \<Rightarrow> Some (DateFromTime (LocalTime zone t)))"

text \<open>
  \<^verbatim>\<open>Date.prototype.setDate\<close>: the day of the month is replaced in local time, the time
  within the day is kept, and the result is converted back with \<open>UTC\<close> and clipped.
\<close>

definition jsSetDate :: "TimeZone \<Rightarrow> int option \<Rightarrow> int option \<Rightarrow> int option" where
  "jsSetDate zone date dt =
     (case date of
        None \<Rightarrow> None
      | Some t \<Rightarrow>
          (case dt of
             None \<Rightarrow> None
           | Some n \<Rightarrow>
               let t' = LocalTime zone t;
                   newDate = MakeDate (MakeDay (YearFromTime t') (MonthFromTime t') n)
                               (TimeWithinDay t')
               in TimeClip (UTC zone newDate)))"

definition monthShort :: "int \<Rightarrow> string" where
  "monthShort m =
     [''Jan'', ''Feb'', ''Mar'', ''Apr'', ''May'', ''Jun'',
      ''Jul'', ''Aug'', ''Sep'', ''Oct'', ''Nov'', ''Dec''] ! nat m"

text \<open>\<^verbatim>\<open>toLocaleDateString("en-US", {month: "short", day: "numeric"})\<close>, as in \<^verbatim>\<open>Dec 31\<close>.\<close>

definition jsToLocaleDateString :: "TimeZone \<Rightarrow> int option \<Rightarrow> string" where
  "jsToLocaleDateString zone date =
     (case date of
        None \<Rightarrow> ''Invalid Date''
      | Some t \<Rightarrow>
          monthShort (MonthFromTime (LocalTime zone t)) @ '' ''
            @ toString_nat (nat (DateFromTime (LocalTime zone t))))"

definition jsDateApi :: "TimeZone \<Rightarrow> (int option) DateApi" where
  "jsDateApi zone =
     \<lparr>getDate = jsGetDate zone, setDate = jsSetDate zone,
      toLocaleDateString = jsToLocaleDateString zone\<rparr>"

text \<open>
  Two time zones. Asia/Kolkata has had the offset +05:30 without interruption since 1945.
  Pacific/Apia moved across the date line at the end of 29 December 2011: at
  2011-12-30T10:00:00Z (time value 1325239200000) its offset went from -10:00 to +14:00,
  so that 30 December 2011 does not occur in its local calendar; its other transitions
  are left out.
\<close>

definition kolkata :: TimeZone where
  "kolkata t isUTC = 19800000"




section \<open>Inputs used to run the model\<close>

text \<open>The object literal \<^verbatim>\<open>{ status: s }\<close> as a \<^verbatim>\<open>Partial<TodoItem>\<close>.\<close>

definition statusOnly :: "TodoStatus \<Rightarrow> TodoPartial" where
  "statusOnly s =
     \<lparr>partial_id = None, partial_text = None, partial_completed = None,
      partial_status = Some s, partial_priority = None, partial_createdAt = None\<rparr>"

text \<open>
  A small state, reached from the default state: two habits, the first one marked on
  1 March 2024 (day 19783), and two to-do items on that day, the second one added with
  the default priority and status.
\<close>

definition sampleState :: OrdiaaState where
  "sampleState =
     addTodo isoDate 4 19783 ''Call home'' None None
       (addTodo isoDate 3 19783 ''Buy milk'' (Some High) (Some Todo)
          (toggleHabit isoDate ''1'' 19783
             (addHabit 2 ''Walk'' ''*'' (addHabit 1 ''Read'' ''*'' defaultState))))"

text \<open>
  Forty habits, added to the default state at the clock readings 1 to 40, and the state
  after the first twenty-three of them have been toggled once for a date.
\<close>

definition fortyHabits :: OrdiaaState where
  "fortyHabits = fold (\<lambda>n. addHabit n ''habit'' ''*'') [1..<41] defaultState"

definition twentyThreeDone :: "('d \<Rightarrow> string) \<Rightarrow> 'd \<Rightarrow> OrdiaaState" where
  "twentyThreeDone formatDate date =
     fold (\<lambda>n. toggleHabit formatDate (toString_nat n) date) [1..<24] fortyHabits"

text \<open>
  The completion rate in the words of the specification (section 4.2):
  \<^verbatim>\<open>round(100 * completedCount / totalHabits)\<close>, and 0 when there are no habits. This
  definition follows the specification, not the source: the quotient is exact and a value
  halfway between two integers goes to the larger one. It is what \<open>getCompletionRate\<close> is
  compared with.
\<close>

definition roundedPercentage :: "nat \<Rightarrow> nat \<Rightarrow> int" where
  "roundedPercentage k n = (if n = 0 then 0 else Math_round (100 * of_nat k / of_nat n))"

section \<open>The sample state, evaluated\<close>

lemma isoDate_19781: "isoDate 19781 = ''2024-02-28''"
  by code_simp

lemma isoDate_19783: "isoDate 19783 = ''2024-03-01''"
  by code_simp

lemma isoDate_19784: "isoDate 19784 = ''2024-03-02''"
  by code_simp

lemma sampleState_eq:
  "sampleState =
     \<lparr>habits = [\<lparr>habit_id = ''1'', habit_name = ''Read'', habit_emoji = ''*''\<rparr>,
                 \<lparr>habit_id = ''2'', habit_name = ''Walk'', habit_emoji = ''*''\<rparr>],
      completions = [''1-2024-03-01'' \<mapsto> True],
      logs = Map.empty,
      todos = [''2024-03-01'' \<mapsto>
        [\<lparr>todo_id = ''3'', todo_text = ''Buy milk'', todo_completed = False,
          todo_status = Todo, todo_priority = High, todo_createdAt = ''2024-03-01''\<rparr>,
         \<lparr>todo_id = ''4'', todo_text = ''Call home'', todo_completed = False,
          todo_status = Todo, todo_priority = Medium, todo_createdAt = ''2024-03-01''\<rparr>]]\<rparr>"
  by (simp add: sampleState_def addTodo_def toggleHabit_def addHabit_def defaultState_def
      isoDate_19783 todosAt_def js_not_def Let_def toString_nat.simps)



section \<open>The completion rate\<close>

text \<open>
  The rounding agrees with the binary64 values of some well-known quotients and sums:
  0.1, 0.1 + 0.2 (which is 0.30000000000000004) and 1/3, and it gives the two values on
  which the completion rate of 23 out of 40 depends.
\<close>

lemma binary64_known_values:
  "binary64 (1 / 10) = 3602879701896397 / 2 ^ 55"
  "binary64 (binary64 (1 / 10) + binary64 (1 / 5)) = 1351079888211149 / 2 ^ 52"
  "binary64 (1 / 3) = 6004799503160661 / 2 ^ 54"
  "js_div 23 40 = 2589569785738035 / 2 ^ 52"
  "js_mul (js_div 23 40) 100 = 8092405580431359 / 2 ^ 47"
  "js_div (js_mul 100 23) 40 = 115 / 2"
  by code_simp+

text \<open>
  In general, \<open>round_ties_even\<close> is within one half of its argument, \<open>ilog2\<close>
  is the binary exponent, and so \<open>binary64\<close> has a relative error of at most \<open>2\<^sup>-\<^sup>5\<^sup>3\<close> in
  the normal range.
\<close>

lemma round_ties_even_error: "\<bar>of_int (round_ties_even q) - q\<bar> \<le> 1 / 2"
proof -
  have "of_int \<lfloor>q\<rfloor> \<le> q" and "q < of_int \<lfloor>q\<rfloor> + 1"
    by linarith+
  then show ?thesis
    by (auto simp add: round_ties_even_def Let_def)
qed

lemma ilog2_bounds:
  assumes "0 < x"
  shows "2 powi ilog2 x \<le> x" and "x < 2 powi (ilog2 x + 1)"
proof -
  obtain p q where pq: "quotient_of x = (p, q)"
    by (cases "quotient_of x")
  then have q: "0 < q" and x: "x = of_int p / of_int q"
    by (simp_all add: quotient_of_denom_pos quotient_of_div)
  with assms have p: "0 < p"
    by (simp add: zero_less_divide_iff)
  define d where "d = bitlen p - bitlen q"
  have bp: "1 \<le> bitlen p" and bq: "1 \<le> bitlen q"
    using p q bitlen_eq_zero_iff [of p] bitlen_eq_zero_iff [of q] bitlen_nonneg [of p]
      bitlen_nonneg [of q]
    by linarith+
  from bitlen_bounds [OF p] have "(2::rat) ^ nat (bitlen p - 1) \<le> of_int p"
    and "of_int p < (2::rat) ^ nat (bitlen p)"
    by (metis of_int_le_iff of_int_numeral of_int_power, metis of_int_less_iff of_int_numeral of_int_power)
  then have p1: "2 powi (bitlen p - 1) \<le> (of_int p :: rat)"
    and p2: "(of_int p :: rat) < 2 powi bitlen p"
    using bp by (simp_all add: power_int_nonneg_exp)
  from bitlen_bounds [OF q] have "(2::rat) ^ nat (bitlen q - 1) \<le> of_int q"
    and "of_int q < (2::rat) ^ nat (bitlen q)"
    by (metis of_int_le_iff of_int_numeral of_int_power, metis of_int_less_iff of_int_numeral of_int_power)
  then have q1: "2 powi (bitlen q - 1) \<le> (of_int q :: rat)"
    and q2: "(of_int q :: rat) < 2 powi bitlen q"
    using bq by (simp_all add: power_int_nonneg_exp)
  have qpos: "(0::rat) < of_int q"
    using q by simp
  have lower: "2 powi (d - 1) < x"
  proof -
    have "2 powi (d - 1) * (of_int q :: rat) < 2 powi (d - 1) * 2 powi bitlen q"
      using q2 by simp
    also have "\<dots> = 2 powi (bitlen p - 1)"
      by (simp add: d_def flip: power_int_add)
    also have "\<dots> \<le> of_int p"
      by (rule p1)
    finally show ?thesis
      using qpos by (simp add: x pos_less_divide_eq)
  qed
  have upper: "x < 2 powi (d + 1)"
  proof -
    have "(of_int p :: rat) < 2 powi bitlen p"
      by (rule p2)
    also have "\<dots> = 2 powi (d + 1) * 2 powi (bitlen q - 1)"
      by (simp add: d_def flip: power_int_add)
    also have "\<dots> \<le> 2 powi (d + 1) * of_int q"
      using q1 by simp
    finally show ?thesis
      using qpos by (simp add: x pos_divide_less_eq)
  qed
  have il: "ilog2 x = (if 2 powi d \<le> x then d else d - 1)"
    by (simp add: ilog2_def pq d_def Let_def)
  show "2 powi ilog2 x \<le> x"
    using lower by (simp add: il)
  show "x < 2 powi (ilog2 x + 1)"
    using upper by (simp add: il)
qed


lemma binary64_error:
  assumes "2 powi (- 1022) \<le> x"
  shows "\<bar>binary64 x - x\<bar> \<le> x / 2 ^ 53"
proof -
  have pos: "0 < x"
    using assms by (rule less_le_trans [rotated]) simp
  define e where "e = ilog2 x"
  have lo: "2 powi e \<le> x" and hi: "x < 2 powi (e + 1)"
    using ilog2_bounds [OF pos] by (simp_all add: e_def)
  have "(2::rat) powi (- 1022) < 2 powi (e + 1)"
    using assms hi by (rule le_less_trans)
  have "- 1022 < e + 1"
  proof (rule ccontr)
    assume "\<not> - 1022 < e + 1"
    then have "e + 1 \<le> - 1022"
      by simp
    then have "(2::rat) powi (e + 1) \<le> 2 powi (- 1022)"
      by (intro power_int_increasing) simp_all
    with \<open>(2::rat) powi (- 1022) < 2 powi (e + 1)\<close> show False
      by simp
  qed
  then have e: "max e (- 1022) = e"
    by simp
  define u :: rat where "u = 2 powi (e - 52)"
  have u: "0 < u"
    by (simp add: u_def)
  have b: "binary64 x = of_int (round_ties_even (x / u)) * u"
    using pos by (simp add: binary64_def e_def [symmetric] e u_def Let_def)
  have "binary64 x - x = (of_int (round_ties_even (x / u)) - x / u) * u"
    using u by (simp add: b left_diff_distrib)
  then have "\<bar>binary64 x - x\<bar> = \<bar>of_int (round_ties_even (x / u)) - x / u\<bar> * u"
    using u by (simp add: abs_mult)
  also have "\<dots> \<le> 1 / 2 * u"
    using round_ties_even_error [of "x / u"] u by (intro mult_right_mono) simp_all
  also have "\<dots> = 2 powi e / 2 ^ 53"
    by (simp add: u_def power_int_diff)
  also have "\<dots> \<le> x / 2 ^ 53"
    using lo by (simp add: divide_right_mono)
  finally show ?thesis .
qed


text \<open>
  The two roundings of \<^verbatim>\<open>(k / n) * 100\<close> move the value by less than \<open>2\<^sup>-\<^sup>3\<^sup>3\<close>. An array
  has fewer than \<open>2\<^sup>3\<^sup>2\<close> elements, and unless \<open>100 * k / n\<close> lies exactly halfway between
  two integers it is at least \<open>1 / (2 * n)\<close> away from such a point, so that \<^verbatim>\<open>Math.round\<close>
  is not affected.
\<close>

lemma rate_exact:
  fixes k n :: nat
  assumes n: "0 < n" "n < 2 ^ 32"
    and k: "k \<le> n"
    and halfway: "(200 * k + n) mod (2 * n) \<noteq> 0"
  shows "Math_round (js_mul (js_div (of_nat k) (of_nat n)) 100) =
    Math_round (100 * of_nat k / of_nat n)"
proof (cases "k = 0")
  case True
  then show ?thesis
    by (simp add: js_mul_def js_div_def binary64_def)
next
  case False
  define x :: rat where "x = of_nat k / of_nat n"
  define q where "q = binary64 x"
  define p where "p = binary64 (q * 100)"
  define E where "E = (200 * k + n) div (2 * n)"
  define r where "r = (200 * k + n) mod (2 * n)"
  have npos: "(0::rat) < of_nat n"
    using n by simp
  have nlt: "(of_nat n :: rat) < 2 ^ 32"
    using n by (metis of_nat_less_iff of_nat_numeral of_nat_power)
  have x1: "x \<le> 1"
    using k npos by (simp add: x_def)
  have "1 \<le> (of_nat k :: rat)"
    using False by (simp add: Suc_le_eq)
  then have "1 / of_nat n \<le> x"
    using npos by (simp add: x_def divide_right_mono)
  moreover have "(1::rat) / 2 ^ 32 \<le> 1 / of_nat n"
    using npos nlt by (simp add: frac_le)
  ultimately have xlow: "1 / 2 ^ 32 \<le> x"
    by simp
  have tiny: "(2::rat) powi (- 1022) \<le> 1 / 2 ^ 32"
    by (simp add: power_int_minus field_simps)
  have xq: "\<bar>q - x\<bar> \<le> x / 2 ^ 53"
    unfolding q_def using tiny xlow by (intro binary64_error) simp
  have xpos: "0 < x"
    using xlow by (rule less_le_trans [rotated]) simp
  then have "x / 2 ^ 53 \<le> x / 200"
    by (intro divide_left_mono) simp_all
  with xq have "\<bar>q - x\<bar> \<le> x / 200"
    by (rule order_trans)
  then have qx: "x - x / 200 \<le> q" "q \<le> x + x / 200"
    by linarith+
  have qlow: "x \<le> q * 100" and qhigh: "q * 100 \<le> 101"
    using qx xpos x1 by linarith+
  have qp: "\<bar>p - q * 100\<bar> \<le> q * 100 / 2 ^ 53"
    unfolding p_def using tiny xlow qlow by (intro binary64_error) simp
  also have "\<dots> \<le> 101 / 2 ^ 53"
    using qhigh by (intro divide_right_mono) simp_all
  finally have first: "\<bar>p - q * 100\<bar> \<le> 101 / 2 ^ 53" .
  have "x / 2 ^ 53 \<le> 1 / 2 ^ 53"
    using x1 by (intro divide_right_mono) simp_all
  with xq have second: "\<bar>q - x\<bar> \<le> 1 / 2 ^ 53"
    by simp
  have "p - 100 * x = (p - q * 100) + 100 * (q - x)"
    by simp
  then have "\<bar>p - 100 * x\<bar> \<le> \<bar>p - q * 100\<bar> + \<bar>100 * (q - x)\<bar>"
    by (simp only: abs_triangle_ineq)
  also have "\<bar>100 * (q - x)\<bar> = 100 * \<bar>q - x\<bar>"
    by (simp only: abs_mult abs_numeral)
  also have "\<bar>p - q * 100\<bar> + 100 * \<bar>q - x\<bar> \<le> 101 / 2 ^ 53 + 100 * (1 / 2 ^ 53)"
    using first second by (intro add_mono mult_left_mono) simp_all
  also have "\<dots> < 1 / 2 ^ 33"
    by simp
  finally have close: "\<bar>p - 100 * x\<bar> < 1 / 2 ^ 33" .
  have r: "0 < r" "r < 2 * n"
    using halfway n by (simp_all add: r_def)
  have "200 * k + n = E * (2 * n) + r"
    by (simp only: E_def r_def div_mult_mod_eq)
  then have "(of_nat (200 * k + n) :: rat) = of_nat (E * (2 * n) + r)"
    by simp
  then have split: "100 * x + 1 / 2 = of_nat E + of_nat r / (2 * of_nat n)"
    using npos by (simp add: x_def field_simps)
  define c :: rat where "c = 1 / 2 ^ 33"
  define t :: rat where "t = of_nat r / (2 * of_nat n)"
  have "1 \<le> (of_nat r :: rat)"
    using r by (simp add: Suc_le_eq)
  then have "1 / (2 * of_nat n) \<le> t"
    unfolding t_def using npos by (intro divide_right_mono) simp_all
  moreover have gap: "c < 1 / (2 * of_nat n)"
    using npos nlt by (simp add: c_def field_simps)
  ultimately have tlow: "c < t"
    by simp
  have "r + 1 \<le> 2 * n"
    using r by simp
  then have "(of_nat (r + 1) :: rat) \<le> of_nat (2 * n)"
    by (simp only: of_nat_le_iff)
  then have "(of_nat r :: rat) \<le> 2 * of_nat n - 1"
    by simp
  then have "t \<le> (2 * of_nat n - 1) / (2 * of_nat n)"
    unfolding t_def using npos by (intro divide_right_mono) simp_all
  also have "\<dots> = 1 - 1 / (2 * of_nat n)"
    using npos by (simp add: field_simps)
  finally have thigh: "t < 1 - c"
    using gap by simp
  have split': "100 * x + 1 / 2 = of_int (int E) + t"
    using split by (simp add: t_def)
  have close': "\<bar>p - 100 * x\<bar> < c"
    using close by (simp add: c_def)
  have exact: "\<lfloor>100 * x + 1 / 2\<rfloor> = int E"
  proof (rule floor_unique)
    show "of_int (int E) \<le> 100 * x + 1 / 2"
      using tlow thigh split' close' by linarith
    show "100 * x + 1 / 2 < of_int (int E) + 1"
      using tlow thigh split' close' by linarith
  qed
  have "\<lfloor>p + 1 / 2\<rfloor> = int E"
  proof (rule floor_unique)
    show "of_int (int E) \<le> p + 1 / 2"
      using tlow thigh split' close' by linarith
    show "p + 1 / 2 < of_int (int E) + 1"
      using tlow thigh split' close' by linarith
  qed
  with exact show ?thesis
    by (simp add: Math_round_def js_mul_def js_div_def p_def q_def x_def)
qed

lemma getCompletionRate_no_habits:
  "habits state = [] \<Longrightarrow> getCompletionRate formatDate state date = roundedPercentage k 0"
  by (simp add: getCompletionRate_def roundedPercentage_def)

text \<open>
  Away from the exact halves, \<open>getCompletionRate\<close> is the rounded percentage of the
  specification.
\<close>

lemma getCompletionRate_exact_unless_halfway:
  assumes "length (habits state) < 2 ^ 32"
    and "(200 * length (filter (completedOn state (formatDate date)) (habits state))
           + length (habits state)) mod (2 * length (habits state)) \<noteq> 0"
  shows "getCompletionRate formatDate state date =
    roundedPercentage (length (filter (completedOn state (formatDate date)) (habits state)))
      (length (habits state))"
proof (cases "habits state = []")
  case True
  then show ?thesis
    by (simp add: getCompletionRate_no_habits)
next
  case False
  then have "0 < length (habits state)"
    by simp
  from rate_exact [OF this assms(1) length_filter_le assms(2)] False show ?thesis
    by (simp add: getCompletionRate_def roundedPercentage_def Let_def)
qed

lemma fold_addHabit:
  "fold (\<lambda>n. addHabit n name emoji) ns prev =
     prev\<lparr>habits := habits prev @
       map (\<lambda>n. \<lparr>habit_id = toString_nat n, habit_name = name, habit_emoji = emoji\<rparr>) ns\<rparr>"
  by (induction ns arbitrary: prev) (simp_all add: addHabit_def)

lemma habits_fold_toggleHabit:
  "habits (fold (\<lambda>n. toggleHabit formatDate (g n) date) ns prev) = habits prev"
  by (induction ns arbitrary: prev) (simp_all add: toggleHabit_def Let_def)

lemma completions_fold_toggleHabit:
  assumes "distinct (map g ns)"
    and "\<forall>n \<in> set ns. completions prev (g n @ ''-'' @ formatDate date) = None"
  shows "completions (fold (\<lambda>n. toggleHabit formatDate (g n) date) ns prev) k =
     (if k \<in> (\<lambda>n. g n @ ''-'' @ formatDate date) ` set ns then Some True
      else completions prev k)"
  using assms
proof (induction ns arbitrary: prev)
  case Nil
  then show ?case by simp
next
  case (Cons n ns)
  let ?next = "toggleHabit formatDate (g n) date prev"
  have fresh: "\<forall>m \<in> set ns. completions ?next (g m @ ''-'' @ formatDate date) = None"
  proof
    fix m
    assume m: "m \<in> set ns"
    then have "g m \<in> g ` set ns"
      by (rule imageI)
    with Cons.prems have "g m \<noteq> g n"
      by (metis distinct.simps(2) list.simps(9) list.set_map)
    moreover from m Cons.prems
    have "completions prev (g m @ ''-'' @ formatDate date) = None"
      by simp
    ultimately show "completions ?next (g m @ ''-'' @ formatDate date) = None"
      by (simp add: toggleHabit_def Let_def)
  qed
  have "distinct (map g ns)"
    using Cons.prems by simp
  from Cons.IH [OF this fresh] show ?case
    using Cons.prems by (auto simp add: toggleHabit_def Let_def js_not_def)
qed

lemma getCompletionRate_unfold:
  "getCompletionRate formatDate state date =
     (if habits state = [] then 0
      else Math_round (js_mul (js_div
             (of_nat (length (filter (completedOn state (formatDate date)) (habits state))))
             (of_nat (length (habits state)))) 100))"
  by (simp add: getCompletionRate_def Let_def)

lemma habits_twentyThreeDone:
  "habits (twentyThreeDone formatDate date) =
     map (\<lambda>n. \<lparr>habit_id = toString_nat n, habit_name = ''habit'', habit_emoji = ''*''\<rparr>) [1..<41]"
  by (simp add: twentyThreeDone_def fortyHabits_def habits_fold_toggleHabit fold_addHabit
      defaultState_def)

lemma distinct_ids: "distinct (map toString_nat [1..<24])"
  by code_simp

lemma count_ids:
  "length (filter (\<lambda>n. toString_nat n \<in> set (map toString_nat [1..<24])) [1..<41]) = 23"
  by code_simp

lemma completedOn_twentyThreeDone:
  "completedOn (twentyThreeDone formatDate date) (formatDate date) h =
     (habit_id h \<in> set (map toString_nat [1..<24]))"
proof -
  have "completions fortyHabits = Map.empty"
    by (simp add: fortyHabits_def fold_addHabit defaultState_def)
  then have "\<forall>n \<in> set [1..<24].
      completions fortyHabits (toString_nat n @ ''-'' @ formatDate date) = None"
    by simp
  from completions_fold_toggleHabit
    [where g = toString_nat and formatDate = formatDate and date = date, OF distinct_ids this]
  show ?thesis
    using \<open>completions fortyHabits = Map.empty\<close>
    by (auto simp add: completedOn_def twentyThreeDone_def)
qed

lemma rate_23_40: "Math_round (js_mul (js_div 23 40) 100) = 57"
  by code_simp

lemma count_twentyThreeDone:
  "length (filter (completedOn (twentyThreeDone formatDate date) (formatDate date))
     (habits (twentyThreeDone formatDate date))) = 23"
  using count_ids
  by (simp add: habits_twentyThreeDone completedOn_twentyThreeDone filter_map comp_def
      del: set_map set_upt)

text \<open>
  Claim C1: for every date \<open>d\<close>, \<open>getCompletionRate d\<close> returns \<open>round (100 * k / n)\<close>, where
  \<open>n\<close> is the number of habits and \<open>k\<close> the number of habits whose completion mark for
  \<open>d\<close> is true, and 0 when \<open>n = 0\<close>.

  The source computes \<^verbatim>\<open>Math.round((completed / total) * 100)\<close>: the quotient is rounded
  to a binary64 value before it is multiplied by 100, and the product is rounded again.
  With forty habits of which twenty-three are marked, the quotient 23/40 is rounded to a
  value just below 0.575 and the product to 57.49999999999999, so the function returns
  57, whereas 100 * 23 / 40 is exactly 57.5 and rounds to 58 (also when it is evaluated
  in binary64 in that order, where both steps are exact). The state is reached from
  the default state by forty calls of \<open>addHabit\<close> and twenty-three calls of \<open>toggleHabit\<close>,
  for any date and any \<open>formatDate\<close>.
\<close>

theorem getCompletionRate_23_of_40:
  "length (habits (twentyThreeDone formatDate date)) = 40 \<and>
   length (filter (completedOn (twentyThreeDone formatDate date) (formatDate date))
     (habits (twentyThreeDone formatDate date))) = 23 \<and>
   getCompletionRate formatDate (twentyThreeDone formatDate date) date = 57 \<and>
   roundedPercentage 23 40 = 58 \<and>
   Math_round (js_div (js_mul 100 23) 40) = 58"
proof -
  have n: "length (habits (twentyThreeDone formatDate date)) = 40"
    by (simp add: habits_twentyThreeDone)
  have r: "roundedPercentage 23 40 = 58"
    by code_simp
  have r': "Math_round (js_div (js_mul 100 23) 40) = 58"
    by code_simp
  have "getCompletionRate formatDate (twentyThreeDone formatDate date) date = 57"
    unfolding getCompletionRate_unfold count_twentyThreeDone n
    using n rate_23_40 by auto
  with n r r' show ?thesis
    by (simp add: count_twentyThreeDone)
qed

section \<open>Habit completion marks\<close>

text \<open>
  Claim C2: for every habit id, date and state, two calls of \<open>toggleHabit\<close> for the same
  habit and date in succession leave \<open>isHabitCompleted\<close> for that habit and date at the
  value it had before the two calls; a key that was absent before counts as false. (The
  key itself is present after the calls in every case.)
\<close>

theorem toggleHabit_twice:
  "isHabitCompleted formatDate
     (toggleHabit formatDate h d (toggleHabit formatDate h d state)) h d =
   isHabitCompleted formatDate state h d"
  by (simp add: isHabitCompleted_def toggleHabit_def js_not_def Let_def split: option.splits)

section \<open>The completion history\<close>

text \<open>The loop appends one entry for each \<open>i\<close> from its start value down to 0.\<close>

lemma historyLoop_closed_form:
  "historyLoop api formatDate state today i history =
     history @ map (historyEntry api formatDate state today) (rev [0..i])"
proof (induction api formatDate state today i history rule: historyLoop.induct)
  case (1 api formatDate state today i history)
  show ?case
  proof (cases "0 \<le> i")
    case True
    then have "[0..i] = [0..i - 1] @ [i]"
      by (simp add: upto_rec2)
    with 1 True show ?thesis
      by (subst historyLoop.simps) simp
  next
    case False
    then show ?thesis
      by (subst historyLoop.simps) simp
  qed
qed

lemma rev_upto_nth:
  assumes "j < nat (i + 1)"
  shows "rev [0..i] ! j = i - int j"
proof -
  have len: "length [0..i] = nat (i + 1)"
    by simp
  with assms have "rev [0..i] ! j = [0..i] ! (nat (i + 1) - Suc j)"
    by (simp add: rev_nth)
  also have "\<dots> = 0 + int (nat (i + 1) - Suc j)"
    using assms by (intro nth_upto) auto
  also have "\<dots> = i - int j"
    using assms by auto
  finally show ?thesis .
qed

lemma getCompletionHistory_entries:
  assumes "0 \<le> days"
  shows "length (getCompletionHistory api formatDate state today days) = nat days"
    and "j < nat days \<Longrightarrow>
      getCompletionHistory api formatDate state today days ! j =
        historyEntry api formatDate state today (days - 1 - int j)"
proof -
  let ?h = "getCompletionHistory api formatDate state today days"
  have h: "?h = map (historyEntry api formatDate state today) (rev [0..days - 1])"
    by (simp add: getCompletionHistory_def historyLoop_closed_form)
  show "length ?h = nat days"
    using assms by (simp add: h)
  show "?h ! j = historyEntry api formatDate state today (days - 1 - int j)"
    if "j < nat days"
  proof -
    from that have "j < nat (days - 1 + 1)"
      by simp
    from rev_upto_nth [OF this] that show ?thesis
      by (simp add: h)
  qed
qed

text \<open>
  The calendar of the runtime. A year begins 365 or 366 days after the year before, and
  \<open>YearFromTime\<close> is the year of the standard: the largest \<open>y\<close> whose first day is not
  after \<open>t\<close>.
\<close>

lemma div_step:
  fixes x k :: int
  assumes "0 < k"
  shows "(x + 1) div k = x div k + (if (x + 1) mod k = 0 then 1 else 0)"
proof -
  define q where "q = (x + 1) div k"
  define r where "r = (x + 1) mod k"
  have x: "x + 1 = k * q + r" and r: "0 \<le> r" "r < k"
    using assms by (simp_all add: q_def r_def)
  show ?thesis
  proof (cases "r = 0")
    case True
    with x have "x = k * (q - 1) + (k - 1)"
      by (simp add: algebra_simps)
    then have "x div k = q - 1"
      using assms by (intro int_div_pos_eq [of x k "q - 1" "k - 1"]) simp_all
    with True show ?thesis
      by (simp add: q_def r_def)
  next
    case False
    with x r have "x = k * q + (r - 1)" "0 \<le> r - 1" "r - 1 < k"
      by simp_all
    then have "x div k = q"
      by (intro int_div_pos_eq [of x k q "r - 1"])
    with False show ?thesis
      by (simp add: q_def r_def)
  qed
qed

lemma DayFromYear_Suc: "DayFromYear (y + 1) = DayFromYear y + DaysInYear y"
proof -
  define A where "A = (y - 1969) div 4"
  define B where "B = (y - 1901) div 100"
  define C where "C = (y - 1601) div 400"
  have a: "(y + 1 - 1969) div 4 = A + (if y mod 4 = 0 then 1 else 0)"
  proof -
    have "y + 1 - 1969 = y - 1969 + 1"
      by simp
    moreover have "(y - 1969 + 1) mod 4 = y mod 4"
      by (simp add: mod_diff_eq [of y 4 1968, symmetric])
    ultimately show ?thesis
      unfolding A_def using div_step [of 4 "y - 1969"] by (simp only:)
  qed
  have b: "(y + 1 - 1901) div 100 = B + (if y mod 100 = 0 then 1 else 0)"
  proof -
    have "y + 1 - 1901 = y - 1901 + 1"
      by simp
    moreover have "(y - 1901 + 1) mod 100 = y mod 100"
      by (simp add: mod_diff_eq [of y 100 1900, symmetric])
    ultimately show ?thesis
      unfolding B_def using div_step [of 100 "y - 1901"] by (simp only:)
  qed
  have c: "(y + 1 - 1601) div 400 = C + (if y mod 400 = 0 then 1 else 0)"
  proof -
    have "y + 1 - 1601 = y - 1601 + 1"
      by simp
    moreover have "(y - 1601 + 1) mod 400 = y mod 400"
      by (simp add: mod_diff_eq [of y 400 1600, symmetric])
    ultimately show ?thesis
      unfolding C_def using div_step [of 400 "y - 1601"] by (simp only:)
  qed
  have m100: "y mod 4 = 0" if "y mod 100 = 0"
    using that mod_mod_cancel [of 4 100 y] by simp
  have m400: "y mod 100 = 0" if "y mod 400 = 0"
    using that mod_mod_cancel [of 100 400 y] by simp
  have "DayFromYear (y + 1) = 365 * (y + 1 - 1970) + (A + (if y mod 4 = 0 then 1 else 0))
      - (B + (if y mod 100 = 0 then 1 else 0)) + (C + (if y mod 400 = 0 then 1 else 0))"
    unfolding DayFromYear_def a b c ..
  moreover have "DayFromYear y = 365 * (y - 1970) + A - B + C"
    unfolding DayFromYear_def A_def B_def C_def ..
  ultimately show ?thesis
    using m100 m400 by (simp add: DaysInYear_def)
qed

lemma DaysInYear_bounds: "365 \<le> DaysInYear y \<and> DaysInYear y \<le> 366"
  by (simp add: DaysInYear_def)

lemma DayFromYear_1970: "DayFromYear 1970 = 0"
  by (simp add: DayFromYear_def)

lemma DayFromYear_mono: "y \<le> y' \<Longrightarrow> DayFromYear y \<le> DayFromYear y'"
proof (induction y' rule: int_ge_induct)
  case base
  show ?case by simp
next
  case (step i)
  with DayFromYear_Suc [of i] DaysInYear_bounds [of i] show ?case
    by simp
qed

lemma DayFromYear_after: "0 \<le> k \<Longrightarrow> DayFromYear (1970 + k) \<le> 366 * k"
proof (induction k rule: int_ge_induct)
  case base
  show ?case by (simp add: DayFromYear_1970)
next
  case (step i)
  with DayFromYear_Suc [of "1970 + i"] DaysInYear_bounds [of "1970 + i"] show ?case
    by (simp add: add.assoc)
qed

lemma DayFromYear_before: "k \<le> 0 \<Longrightarrow> DayFromYear (1970 + k) \<le> 365 * k"
proof (induction k rule: int_le_induct)
  case base
  show ?case by (simp add: DayFromYear_1970)
next
  case (step i)
  with DayFromYear_Suc [of "1970 + (i - 1)"] DaysInYear_bounds [of "1970 + (i - 1)"]
  show ?case
    by simp
qed

lemma yearSearch_finds:
  assumes "DayFromYear y \<le> d" and "d - DayFromYear y \<le> int n"
  shows "DayFromYear (yearSearch n d y) \<le> d \<and> d < DayFromYear (yearSearch n d y + 1)"
  using assms
proof (induction n arbitrary: y)
  case 0
  with DayFromYear_Suc [of y] DaysInYear_bounds [of y] show ?case
    by simp
next
  case (Suc n)
  show ?case
  proof (cases "DayFromYear (y + 1) \<le> d")
    case True
    moreover from Suc.prems DayFromYear_Suc [of y] DaysInYear_bounds [of y]
    have "d - DayFromYear (y + 1) \<le> int n"
      by simp
    ultimately show ?thesis
      using Suc.IH [of "y + 1"] by simp
  next
    case False
    with Suc.prems show ?thesis
      by simp
  qed
qed

lemma YearFromTime_spec:
  "DayFromYear (YearFromTime t) \<le> Day t \<and> Day t < DayFromYear (YearFromTime t + 1)"
proof -
  define d where "d = Day t"
  define y where "y = 1970 + (if 0 \<le> d then d div 366 else d div 365)"
  have start: "DayFromYear y \<le> d"
  proof (cases "0 \<le> d")
    case True
    then have "0 \<le> d div 366"
      by simp
    from DayFromYear_after [OF this] True have "DayFromYear y \<le> 366 * (d div 366)"
      by (simp add: y_def)
    also have "\<dots> \<le> d"
      using mult_div_mod_eq [of 366 d] pos_mod_sign [of 366 d] by linarith
    finally show ?thesis .
  next
    case False
    then have "d div 365 \<le> 0"
      by (simp add: div_nonpos_pos_le0)
    from DayFromYear_before [OF this] False have "DayFromYear y \<le> 365 * (d div 365)"
      by (simp add: y_def)
    also have "\<dots> \<le> d"
      using mult_div_mod_eq [of 365 d] pos_mod_sign [of 365 d] by linarith
    finally show ?thesis .
  qed
  then have "d - DayFromYear y \<le> int (nat (d - DayFromYear y))"
    by simp
  from yearSearch_finds [OF start this] show ?thesis
    by (simp add: YearFromTime_def d_def [symmetric] y_def [symmetric] Let_def)
qed

lemma YearFromTime_largest: "DayFromYear y \<le> Day t \<Longrightarrow> y \<le> YearFromTime t"
proof (rule ccontr)
  assume le: "DayFromYear y \<le> Day t" and "\<not> y \<le> YearFromTime t"
  then have "YearFromTime t + 1 \<le> y"
    by simp
  from DayFromYear_mono [OF this] le YearFromTime_spec [of t] show False
    by simp
qed






text \<open>
  The range of \<^verbatim>\<open>Date\<close> ends 100 000 000 days before 1 January 1970. A window that reaches
  further back begins with entries for the Invalid Date, here from 1 March 2024:
\<close>

lemma getCompletionHistory_out_of_range:
  "getCompletionHistory (jsDateApi kolkata) formatDate state (Some 1709260200000)
     100019785 ! 0 =
     \<lparr>entry_date = ''Invalid Date'', entry_rate = getCompletionRate formatDate state None\<rparr>"
proof -
  have "windowDate (jsDateApi kolkata) (Some 1709260200000) 100019784 = None"
    by code_simp
  moreover have "toLocaleDateString (jsDateApi kolkata) None = ''Invalid Date''"
    by (simp add: jsDateApi_def jsToLocaleDateString_def)
  moreover have "getCompletionHistory (jsDateApi kolkata) formatDate state
      (Some 1709260200000) 100019785 ! 0 =
      historyEntry (jsDateApi kolkata) formatDate state (Some 1709260200000) 100019784"
    using getCompletionHistory_entries(2)
      [of 100019785 0 "jsDateApi kolkata" formatDate state "Some 1709260200000"]
    by simp
  ultimately show ?thesis
    by (simp add: historyEntry_def)
qed



section \<open>To-do items\<close>

text \<open>
  Claim C4 states that \<open>toggleTodo\<close>, \<open>updateTodo\<close> and \<open>deleteTodo\<close> leave the
  application state unchanged when the id is not found, also when the date has no to-do
  sequence at all. It fails there: each of the three writes the sequence back under the
  date's key, and for a date without a stored sequence that is the empty sequence read
  through \<^verbatim>\<open>|| []\<close>, so the \<open>todos\<close> mapping gains a key. On the default state, for
  1 March 2024 and the id \<^verbatim>\<open>"1"\<close>:
\<close>

theorem notFound_counterexample:
  "''1'' \<notin> todo_id ` set (getTodos isoDate defaultState 19783) \<and>
   todos defaultState (isoDate 19783) = None \<and>
   todos (toggleTodo isoDate 19783 ''1'' defaultState) (isoDate 19783) = Some [] \<and>
   toggleTodo isoDate 19783 ''1'' defaultState \<noteq> defaultState \<and>
   updateTodo isoDate 19783 ''1'' (statusOnly Doing) defaultState \<noteq> defaultState \<and>
   deleteTodo isoDate 19783 ''1'' defaultState \<noteq> defaultState"
proof -
  have "todos s (isoDate 19783) \<noteq> None \<Longrightarrow> s \<noteq> defaultState" for s
    by (auto simp add: defaultState_def)
  then show ?thesis
    by (simp add: toggleTodo_def updateTodo_def deleteTodo_def getTodos_def todosAt_def
        defaultState_def Let_def)
qed

text \<open>
  Claim C4, amended: for every date and every id that does not occur in the date's to-do
  sequence, each of \<open>toggleTodo\<close>, \<open>updateTodo\<close> and \<open>deleteTodo\<close> leaves the application
  state unchanged when the date has a stored to-do sequence; when it has none, the only
  change is that \<open>todos\<close> now stores the empty sequence under the date's key. In both
  cases \<open>getTodos\<close> returns for every date what it returned before.
\<close>

theorem notFound_noop:
  assumes "todoId \<notin> todo_id ` set (getTodos formatDate state date)"
  shows
    "(todos state (formatDate date) \<noteq> None \<longrightarrow>
        toggleTodo formatDate date todoId state = state \<and>
        updateTodo formatDate date todoId updates state = state \<and>
        deleteTodo formatDate date todoId state = state) \<and>
     (todos state (formatDate date) = None \<longrightarrow>
        toggleTodo formatDate date todoId state =
          state\<lparr>todos := (todos state)(formatDate date \<mapsto> [])\<rparr> \<and>
        updateTodo formatDate date todoId updates state =
          state\<lparr>todos := (todos state)(formatDate date \<mapsto> [])\<rparr> \<and>
        deleteTodo formatDate date todoId state =
          state\<lparr>todos := (todos state)(formatDate date \<mapsto> [])\<rparr>) \<and>
     (\<forall>date'.
        getTodos formatDate (toggleTodo formatDate date todoId state) date' =
          getTodos formatDate state date' \<and>
        getTodos formatDate (updateTodo formatDate date todoId updates state) date' =
          getTodos formatDate state date' \<and>
        getTodos formatDate (deleteTodo formatDate date todoId state) date' =
          getTodos formatDate state date')"
proof -
  let ?xs = "todosAt state (formatDate date)"
  let ?written = "state\<lparr>todos := (todos state)(formatDate date \<mapsto> ?xs)\<rparr>"
  from assms have other: "\<forall>todo \<in> set ?xs. todo_id todo \<noteq> todoId"
    by (auto simp add: getTodos_def)
  then have "map (\<lambda>todo.
        if todo_id todo = todoId then
          let newCompleted = \<not> todo_completed todo
          in todo\<lparr>todo_completed := newCompleted,
                  todo_status := (if newCompleted then Done else Todo)\<rparr>
        else todo) ?xs = ?xs"
    by (simp add: map_idI)
  then have toggle: "toggleTodo formatDate date todoId state = ?written"
    by (simp add: toggleTodo_def Let_def)
  from other
  have "map (\<lambda>todo. if todo_id todo = todoId then spread todo updates else todo) ?xs = ?xs"
    by (simp add: map_idI)
  then have update: "updateTodo formatDate date todoId updates state = ?written"
    by (simp add: updateTodo_def Let_def)
  from other have "filter (\<lambda>todo. todo_id todo \<noteq> todoId) ?xs = ?xs"
    by simp
  then have delete: "deleteTodo formatDate date todoId state = ?written"
    by (simp add: deleteTodo_def Let_def)
  have stored: "?written = state" if "todos state (formatDate date) \<noteq> None"
    using that by (auto simp add: todosAt_def fun_upd_idem)
  have fresh: "?written = state\<lparr>todos := (todos state)(formatDate date \<mapsto> [])\<rparr>"
    if "todos state (formatDate date) = None"
    using that by (simp add: todosAt_def)
  have same: "getTodos formatDate ?written date' = getTodos formatDate state date'" for date'
    by (simp add: getTodos_def todosAt_def)
  show ?thesis
    unfolding toggle update delete using stored fresh same by blast
qed

text \<open>
  Claim C4, amended, on the sample state: the id \<^verbatim>\<open>"9"\<close> is not in use; 1 March 2024 has a
  stored sequence and \<open>toggleTodo\<close> changes nothing, 2 March 2024 has none and \<open>deleteTodo\<close>
  stores the empty sequence for it, which \<open>getTodos\<close> does not tell apart.
\<close>

theorem notFound_noop_witness:
  "''9'' \<notin> todo_id ` set (getTodos isoDate sampleState 19783) \<and>
   todos sampleState (isoDate 19783) \<noteq> None \<and>
   toggleTodo isoDate 19783 ''9'' sampleState = sampleState \<and>
   ''9'' \<notin> todo_id ` set (getTodos isoDate sampleState 19784) \<and>
   todos sampleState (isoDate 19784) = None \<and>
   deleteTodo isoDate 19784 ''9'' sampleState =
     sampleState\<lparr>todos := (todos sampleState)(isoDate 19784 \<mapsto> [])\<rparr> \<and>
   getTodos isoDate (deleteTodo isoDate 19784 ''9'' sampleState) 19784 =
     getTodos isoDate sampleState 19784"
proof -
  have absent: "''9'' \<notin> todo_id ` set (getTodos isoDate sampleState 19783)"
    by (simp add: sampleState_eq isoDate_19783 getTodos_def todosAt_def)
  have stored: "todos sampleState (isoDate 19783) \<noteq> None"
    by (simp add: sampleState_eq isoDate_19783)
  have absent': "''9'' \<notin> todo_id ` set (getTodos isoDate sampleState 19784)"
    by (simp add: sampleState_eq isoDate_19784 getTodos_def todosAt_def)
  have none: "todos sampleState (isoDate 19784) = None"
    by (simp add: sampleState_eq isoDate_19784)
  from notFound_noop [OF absent] stored
  have first: "toggleTodo isoDate 19783 ''9'' sampleState = sampleState"
    by blast
  from notFound_noop [OF absent'] none
  have second: "deleteTodo isoDate 19784 ''9'' sampleState =
      sampleState\<lparr>todos := (todos sampleState)(isoDate 19784 \<mapsto> [])\<rparr>"
    by blast
  from notFound_noop [OF absent']
  have "getTodos isoDate (deleteTodo isoDate 19784 ''9'' sampleState) 19784 =
      getTodos isoDate sampleState 19784"
    by blast
  with absent stored first absent' none second show ?thesis
    by blast
qed

text \<open>
  Claim C5: for every date, text, priority and status, \<open>addTodo\<close> appends exactly one new
  item to the end of the date's to-do sequence and changes no other item; the item's
  text, priority and status are the arguments, its \<open>completed\<close> field is true exactly
  when the status is \<^verbatim>\<open>"done"\<close>, and its \<open>createdAt\<close> is \<open>formatDate\<close> of the date.
\<close>

theorem addTodo_appends:
  "\<exists>item.
     todos (addTodo formatDate now date text (Some priority) (Some status) state) =
       (todos state)(formatDate date \<mapsto> getTodos formatDate state date @ [item]) \<and>
     getTodos formatDate
       (addTodo formatDate now date text (Some priority) (Some status) state) date =
       getTodos formatDate state date @ [item] \<and>
     todo_text item = text \<and>
     todo_priority item = priority \<and>
     todo_status item = status \<and>
     todo_completed item = (status = Done) \<and>
     todo_createdAt item = formatDate date"
  by (simp add: addTodo_def getTodos_def todosAt_def Let_def)

text \<open>
  Claim C6: for every date and every id present in the date's to-do sequence,
  \<open>toggleTodo\<close> flips the \<open>completed\<close> flag of the item with that id and sets its status
  to \<^verbatim>\<open>"done"\<close> when the new flag is true and to \<^verbatim>\<open>"todo"\<close> when it is false; the
  item's other fields, the items with another id, the length of the sequence and the
  sequences of the other dates are unchanged.
\<close>

theorem toggleTodo_flips:
  assumes "i < length (getTodos formatDate state date)"
    and "todo_id (getTodos formatDate state date ! i) = todoId"
  shows
    "length (getTodos formatDate (toggleTodo formatDate date todoId state) date) =
       length (getTodos formatDate state date) \<and>
     getTodos formatDate (toggleTodo formatDate date todoId state) date ! i =
       (getTodos formatDate state date ! i)
         \<lparr>todo_completed := \<not> todo_completed (getTodos formatDate state date ! i),
          todo_status :=
            (if \<not> todo_completed (getTodos formatDate state date ! i) then Done else Todo)\<rparr> \<and>
     (\<forall>j < length (getTodos formatDate state date).
        todo_id (getTodos formatDate state date ! j) \<noteq> todoId \<longrightarrow>
        getTodos formatDate (toggleTodo formatDate date todoId state) date ! j =
          getTodos formatDate state date ! j) \<and>
     (\<forall>date'. formatDate date' \<noteq> formatDate date \<longrightarrow>
        getTodos formatDate (toggleTodo formatDate date todoId state) date' =
          getTodos formatDate state date')"
  using assms
  by (simp add: toggleTodo_def getTodos_def todosAt_def Let_def)

text \<open>
  Claim C6 on the sample state: the item \<^verbatim>\<open>"3"\<close> of 1 March 2024 is open, and toggling it
  gives a completed item with status \<^verbatim>\<open>"done"\<close>; the item \<^verbatim>\<open>"4"\<close> of that day and the
  (empty) sequence of 2 March 2024 are as before.
\<close>

theorem toggleTodo_flips_witness:
  "0 < length (getTodos isoDate sampleState 19783) \<and>
   todo_id (getTodos isoDate sampleState 19783 ! 0) = ''3'' \<and>
   getTodos isoDate (toggleTodo isoDate 19783 ''3'' sampleState) 19783 ! 0 =
     \<lparr>todo_id = ''3'', todo_text = ''Buy milk'', todo_completed = True, todo_status = Done,
      todo_priority = High, todo_createdAt = ''2024-03-01''\<rparr> \<and>
   1 < length (getTodos isoDate sampleState 19783) \<and>
   todo_id (getTodos isoDate sampleState 19783 ! 1) \<noteq> ''3'' \<and>
   getTodos isoDate (toggleTodo isoDate 19783 ''3'' sampleState) 19783 ! 1 =
     getTodos isoDate sampleState 19783 ! 1 \<and>
   isoDate 19784 \<noteq> isoDate 19783 \<and>
   getTodos isoDate (toggleTodo isoDate 19783 ''3'' sampleState) 19784 =
     getTodos isoDate sampleState 19784"
proof -
  have before: "getTodos isoDate sampleState 19783 =
      [\<lparr>todo_id = ''3'', todo_text = ''Buy milk'', todo_completed = False, todo_status = Todo,
        todo_priority = High, todo_createdAt = ''2024-03-01''\<rparr>,
       \<lparr>todo_id = ''4'', todo_text = ''Call home'', todo_completed = False,
        todo_status = Todo, todo_priority = Medium, todo_createdAt = ''2024-03-01''\<rparr>]"
    by (simp add: sampleState_eq isoDate_19783 getTodos_def todosAt_def)
  then have index: "0 < length (getTodos isoDate sampleState 19783)"
    and ident: "todo_id (getTodos isoDate sampleState 19783 ! 0) = ''3''"
    and index': "1 < length (getTodos isoDate sampleState 19783)"
    and other: "todo_id (getTodos isoDate sampleState 19783 ! 1) \<noteq> ''3''"
    by simp_all
  have dates: "isoDate 19784 \<noteq> isoDate 19783"
    by (simp add: isoDate_19783 isoDate_19784)
  note flips = toggleTodo_flips [OF index ident]
  from flips have "getTodos isoDate (toggleTodo isoDate 19783 ''3'' sampleState) 19783 ! 0 =
      \<lparr>todo_id = ''3'', todo_text = ''Buy milk'', todo_completed = True, todo_status = Done,
       todo_priority = High, todo_createdAt = ''2024-03-01''\<rparr>"
    by (simp add: before)
  moreover from flips index' other
  have "getTodos isoDate (toggleTodo isoDate 19783 ''3'' sampleState) 19783 ! 1 =
      getTodos isoDate sampleState 19783 ! 1"
    by blast
  moreover from flips dates
  have "getTodos isoDate (toggleTodo isoDate 19783 ''3'' sampleState) 19784 =
      getTodos isoDate sampleState 19784"
    by blast
  ultimately show ?thesis
    using index ident index' other dates by blast
qed

text \<open>
  Claim C9: some sequence of operations leaves an item with \<open>completed\<close> true and status
  \<^verbatim>\<open>"doing"\<close>. From every state, \<open>addTodo\<close> with status \<^verbatim>\<open>"done"\<close> followed by \<open>updateTodo\<close>
  of the new item with \<^verbatim>\<open>{ status: "doing" }\<close> does: \<open>updateTodo\<close> merges the given field
  and leaves \<open>completed\<close> as it was.
\<close>

theorem updateTodo_status_not_synced:
  "\<exists>item.
     item \<in> set (getTodos formatDate
       (updateTodo formatDate date (toString_nat now) (statusOnly Doing)
          (addTodo formatDate now date text priority (Some Done) state)) date) \<and>
     todo_id item = toString_nat now \<and>
     todo_text item = text \<and>
     todo_completed item \<and>
     todo_status item = Doing"
proof -
  let ?item = "\<lparr>todo_id = toString_nat now, todo_text = text, todo_completed = True,
      todo_status = Doing,
      todo_priority = (case priority of None \<Rightarrow> Medium | Some p \<Rightarrow> p),
      todo_createdAt = formatDate date\<rparr>"
  have "?item \<in> set (getTodos formatDate
       (updateTodo formatDate date (toString_nat now) (statusOnly Doing)
          (addTodo formatDate now date text priority (Some Done) state)) date)"
    by (simp add: updateTodo_def addTodo_def getTodos_def todosAt_def spread_def
        statusOnly_def Let_def)
  then show ?thesis
    by (intro exI [where x = ?item]) simp
qed

section \<open>Habits\<close>

text \<open>
  Claim C7: for every habit id \<open>h\<close>, \<open>deleteHabit h\<close> removes the habit with id \<open>h\<close> from
  the habit sequence and leaves the \<open>completions\<close> mapping entirely unchanged, so for every
  date \<open>isHabitCompleted h\<close> is after the deletion what it was before.
\<close>

theorem deleteHabit_keeps_completions:
  "habits (deleteHabit h state) = filter (\<lambda>x. habit_id x \<noteq> h) (habits state) \<and>
   h \<notin> habit_id ` set (habits (deleteHabit h state)) \<and>
   completions (deleteHabit h state) = completions state \<and>
   isHabitCompleted formatDate (deleteHabit h state) h date =
     isHabitCompleted formatDate state h date"
  by (auto simp add: deleteHabit_def isHabitCompleted_def)

section \<open>Daily logs\<close>

text \<open>
  Claim C8: for every date and every string \<open>text\<close>, the empty string included, \<open>getLog\<close>
  immediately after \<open>updateLog\<close> with \<open>text\<close> returns \<open>text\<close>; and for every date with no
  stored log entry \<open>getLog\<close> returns the empty string.
\<close>

theorem getLog_updateLog:
  "getLog formatDate (updateLog formatDate date text state) date = text \<and>
   (logs state (formatDate date) = None \<longrightarrow> getLog formatDate state date = '''')"
  by (simp add: getLog_def updateLog_def)

text \<open>
  Claim C8 on the sample state, which stores no log entry for 2 March 2024.
\<close>

theorem getLog_updateLog_witness:
  "logs sampleState (isoDate 19784) = None \<and>
   getLog isoDate sampleState 19784 = '''' \<and>
   getLog isoDate (updateLog isoDate 19784 ''Rest day'' sampleState) 19784 = ''Rest day''"
proof -
  have "logs sampleState (isoDate 19784) = None"
    by (simp add: sampleState_eq)
  with getLog_updateLog [of isoDate 19784 "''Rest day''" sampleState] show ?thesis
    by blast
qed

section \<open>Frame of the mutations\<close>

text \<open>
  Claim C10: every mutation leaves the three top-level fields of the state other than its
  own unchanged: \<open>toggleHabit\<close> changes only \<open>completions\<close>; \<open>updateLog\<close> only \<open>logs\<close>;
  \<open>addTodo\<close>, \<open>toggleTodo\<close>, \<open>updateTodo\<close> and \<open>deleteTodo\<close> only \<open>todos\<close>; \<open>addHabit\<close> and
  \<open>deleteHabit\<close> only \<open>habits\<close>.
\<close>

theorem mutations_frame:
  "(let s = toggleHabit formatDate habitId date state
    in habits s = habits state \<and> logs s = logs state \<and> todos s = todos state) \<and>
   (let s = updateLog formatDate date text state
    in habits s = habits state \<and> completions s = completions state \<and> todos s = todos state) \<and>
   (let s = addTodo formatDate now date text priority status state
    in habits s = habits state \<and> completions s = completions state \<and> logs s = logs state) \<and>
   (let s = toggleTodo formatDate date todoId state
    in habits s = habits state \<and> completions s = completions state \<and> logs s = logs state) \<and>
   (let s = updateTodo formatDate date todoId updates state
    in habits s = habits state \<and> completions s = completions state \<and> logs s = logs state) \<and>
   (let s = deleteTodo formatDate date todoId state
    in habits s = habits state \<and> completions s = completions state \<and> logs s = logs state) \<and>
   (let s = addHabit now name emoji state
    in completions s = completions state \<and> logs s = logs state \<and> todos s = todos state) \<and>
   (let s = deleteHabit habitId state
    in completions s = completions state \<and> logs s = logs state \<and> todos s = todos state)"
  by (simp add: toggleHabit_def updateLog_def addTodo_def toggleTodo_def updateTodo_def
      deleteTodo_def addHabit_def deleteHabit_def Let_def)

end
